theory Spec2Isabelle
  imports Complex_Main "HOL-Library.Word"
begin

section \<open>Internalization of Boolean-algebra operators (ba\_internalize.cpp)\<close>

text \<open>
  A shallow embedding of \<^verbatim>\<open>src/sat/smt/ba_internalize.cpp\<close>: the lowering of
  pseudo-boolean, cardinality and xor terms into constraints of the SAT core.
  The solver and the constraint store are collaborators whose code is elsewhere;
  they are modelled as a record that logs what the lowering hands to them.
\<close>

subsection \<open>Literals and constraints\<close>

type_synonym bool_var = nat
type_synonym u32 = "32 word"

text \<open>\<^verbatim>\<open>sat::literal(v, sign)\<close>: a variable and a polarity; \<^verbatim>\<open>neg()\<close> and \<^verbatim>\<open>~\<close> flip it.\<close>

datatype literal = Literal (lit_var: bool_var) (lit_sign: bool)

fun neg :: "literal \<Rightarrow> literal" where
  "neg (Literal v s) = Literal v (\<not> s)"

text \<open>\<^verbatim>\<open>wliteral\<close> is \<^verbatim>\<open>std::pair<unsigned, literal>\<close>.\<close>

type_synonym wliteral = "u32 \<times> literal"

text \<open>
  What the store receives. The tag is the reification variable; \<^verbatim>\<open>null_bool_var\<close>
  (no tag) is \<open>None\<close>. \<open>Xr\<close> carries the redundancy flag that \<^verbatim>\<open>add_xr\<close> is given.
\<close>

datatype constraint =
    Card "bool_var option" "literal list" u32
  | Pb "bool_var option" "wliteral list" u32
  | Xr "literal list" bool

subsection \<open>Surface terms\<close>

datatype decl_kind = OP_AT_MOST_K | OP_AT_LEAST_K | OP_PB_LE | OP_PB_GE | OP_PB_EQ

text \<open>
  The terms that reach this layer: atoms, binary equivalences, xor, and
  applications of the pseudo-boolean operators. An application carries its kind, the
  threshold \<^verbatim>\<open>get_k\<close>, the declared coefficients and the arguments.
\<close>

datatype expr =
    Atom nat
  | Iff expr expr
  | Xor "expr list"
  | App (get_decl_kind: decl_kind) (get_k: rat) (coeffs: "rat list") (args: "expr list")

text \<open>
  Modelled from the spec: \<^verbatim>\<open>pb_util::get_coeff\<close> and \<^verbatim>\<open>pb_util::has_unit_coefficients\<close>
  (pb\_decl\_plugin) are not among the sources. The cardinality operators have every
  coefficient 1; the weighted ones have the declared coefficients.
\<close>

definition pb_coeffs :: "expr \<Rightarrow> rat list" where
  "pb_coeffs t =
     (if get_decl_kind t = OP_AT_MOST_K \<or> get_decl_kind t = OP_AT_LEAST_K
      then replicate (length (args t)) 1 else coeffs t)"

definition has_unit_coefficients :: "expr \<Rightarrow> bool" where
  "has_unit_coefficients t = list_all (\<lambda>c. c = 1) (pb_coeffs t)"

text \<open>
  Modelled from the spec: \<^verbatim>\<open>rational::is_unsigned\<close> and \<^verbatim>\<open>rational::get_unsigned\<close> are not
  among the sources. A rational is unsigned when it is an integer that is non-negative
  and fits the 32-bit \<^verbatim>\<open>unsigned\<close>.
\<close>

definition is_unsigned :: "rat \<Rightarrow> bool" where
  "is_unsigned c = (of_int \<lfloor>c\<rfloor> = c \<and> 0 \<le> c \<and> c < 4294967296)"

definition get_unsigned :: "rat \<Rightarrow> u32" where
  "get_unsigned c = word_of_int \<lfloor>c\<rfloor>"

subsection \<open>The solver state and its operations\<close>

text \<open>
  \<open>vars\<close>: one entry per variable of the solver, holding the flag \<^verbatim>\<open>add_var\<close> was
  given; a variable is its index. \<open>external\<close>: the variables marked by
  \<^verbatim>\<open>set_external\<close>. \<open>constraints\<close>: the constraints handed to \<^verbatim>\<open>add_at_least\<close>,
  \<^verbatim>\<open>add_pb_ge\<close> and \<^verbatim>\<open>add_xr\<close>, in order. \<open>clauses\<close>: the clauses given to
  \<^verbatim>\<open>mk_clause\<close>. \<open>cache\<close>: the term-to-literal cache of the internalizer \<^verbatim>\<open>si\<close>.
  \<open>user_scopes\<close>: \<^verbatim>\<open>num_user_scopes()\<close>. \<open>is_redundant\<close>: \<^verbatim>\<open>m_is_redundant\<close>.
  \<open>cut_simplifier\<close>: what the optional cut simplifier was told, \<open>None\<close> when there is
  none.
\<close>

record solver =
  vars :: "bool list"
  external :: "bool_var set"
  constraints :: "constraint list"
  clauses :: "literal list list"
  cache :: "(expr \<times> literal) list"
  user_scopes :: nat
  is_redundant :: bool
  cut_simplifier :: "(literal \<times> literal list) list option"

text \<open>
  How a call can fail: the exception of \<^verbatim>\<open>check_unsigned\<close> ("unsigned coefficient
  expected"), a failed \<^verbatim>\<open>SASSERT\<close>, and \<^verbatim>\<open>UNREACHABLE()\<close>. A function that can fail
  returns the error or its result, together with the solver as it is at that moment.
\<close>

datatype error = CoefficientOutOfRange | AssertionViolation | Unreachable

text \<open>\<^verbatim>\<open>check_unsigned\<close>: the exception it throws, if it throws.\<close>

definition check_unsigned :: "rat \<Rightarrow> error option" where
  "check_unsigned c = (if \<not> is_unsigned c then Some CoefficientOutOfRange else None)"

text \<open>
  Modelled from the spec: the operations of the solver and of the store (section 6 of
  the specification: mintVariable, addPbThreshold, addCardinalityThreshold, addParity,
  cacheStore) are not among the sources. Each records its arguments.
\<close>

definition add_var :: "bool \<Rightarrow> solver \<Rightarrow> bool_var \<times> solver" where
  "add_var ext st = (length (vars st), st\<lparr>vars := vars st @ [ext]\<rparr>)"

definition set_external :: "bool_var \<Rightarrow> solver \<Rightarrow> solver" where
  "set_external v st = st\<lparr>external := insert v (external st)\<rparr>"

definition add_at_least :: "bool_var option \<Rightarrow> literal list \<Rightarrow> u32 \<Rightarrow> solver \<Rightarrow> solver" where
  "add_at_least v lits k st = st\<lparr>constraints := constraints st @ [Card v lits k]\<rparr>"

definition add_pb_ge :: "bool_var option \<Rightarrow> wliteral list \<Rightarrow> u32 \<Rightarrow> solver \<Rightarrow> solver" where
  "add_pb_ge v wlits k st = st\<lparr>constraints := constraints st @ [Pb v wlits k]\<rparr>"

definition add_xr :: "literal list \<Rightarrow> bool \<Rightarrow> solver \<Rightarrow> solver" where
  "add_xr lits learned st = st\<lparr>constraints := constraints st @ [Xr lits learned]\<rparr>"

definition mk_clause :: "literal list \<Rightarrow> solver \<Rightarrow> solver" where
  "mk_clause c st = st\<lparr>clauses := clauses st @ [c]\<rparr>"

definition cache_insert :: "expr \<Rightarrow> literal \<Rightarrow> solver \<Rightarrow> solver" where
  "cache_insert t l st = st\<lparr>cache := (t, l) # cache st\<rparr>"

text \<open>
  \<^verbatim>\<open>si.internalize(arg, m_is_redundant)\<close>, the internalizer of operands, is a parameter
  of every function below: it returns the operand's literal and may change the solver.
\<close>

type_synonym internalizer = "expr \<Rightarrow> bool \<Rightarrow> solver \<Rightarrow> literal \<times> solver"

subsection \<open>Arguments and coefficients\<close>

text \<open>\<^verbatim>\<open>convert_pb_args(app* t, literal_vector& lits)\<close>: the loop over the arguments.\<close>

fun convert_pb_args :: "internalizer \<Rightarrow> expr list \<Rightarrow> literal list \<Rightarrow> solver \<Rightarrow> literal list \<times> solver" where
  "convert_pb_args si [] lits st = (lits, st)"
| "convert_pb_args si (arg # rest) lits st =
     (case si arg (is_redundant st) st of
        (l, st1) \<Rightarrow> convert_pb_args si rest (lits @ [l]) (set_external (lit_var l) st1))"

text \<open>
  \<^verbatim>\<open>convert_to_wlits\<close>: the loop over \<^verbatim>\<open>i < lits.size()\<close>, with \<^verbatim>\<open>check_unsigned\<close> on
  each coefficient. The first argument is the list of \<^verbatim>\<open>get_coeff(t, i)\<close> from \<open>i\<close> on.
  A term with fewer coefficients than arguments is ill-formed.
\<close>

fun convert_to_wlits :: "rat list \<Rightarrow> literal list \<Rightarrow> wliteral list \<Rightarrow> error + wliteral list" where
  "convert_to_wlits cs [] wlits = Inr wlits"
| "convert_to_wlits [] (l # ls) wlits = Inl AssertionViolation"
| "convert_to_wlits (c # cs) (l # ls) wlits =
     (case check_unsigned c of
        Some e \<Rightarrow> Inl e
      | None \<Rightarrow> convert_to_wlits cs ls (wlits @ [(get_unsigned c, l)]))"

text \<open>\<^verbatim>\<open>convert_pb_args(app* t, svector<wliteral>& wlits)\<close>.\<close>

definition convert_pb_wargs :: "internalizer \<Rightarrow> expr \<Rightarrow> solver \<Rightarrow> (error + wliteral list) \<times> solver" where
  "convert_pb_wargs si t st =
     (case convert_pb_args si (args t) [] st of
        (lits, st1) \<Rightarrow> (convert_to_wlits (pb_coeffs t) lits [], st1))"

text \<open>
  The loop \<^verbatim>\<open>for (wliteral& wl : wlits) { wl.second.neg(); k1 += wl.first; }\<close> on the
  \<^verbatim>\<open>unsigned\<close> accumulator, and the same loop on the rational accumulator
  (\<^verbatim>\<open>k += rational(wl.first)\<close>).
\<close>

fun neg_wlits :: "wliteral list \<Rightarrow> u32 \<Rightarrow> wliteral list \<times> u32" where
  "neg_wlits [] k1 = ([], k1)"
| "neg_wlits ((c, l) # ws) k1 =
     (case neg_wlits ws (k1 + c) of (ws', k') \<Rightarrow> ((c, neg l) # ws', k'))"

fun neg_wlits_rat :: "wliteral list \<Rightarrow> rat \<Rightarrow> wliteral list \<times> rat" where
  "neg_wlits_rat [] k = ([], k)"
| "neg_wlits_rat ((c, l) # ws) k =
     (case neg_wlits_rat ws (k + of_nat (unat c)) of (ws', k') \<Rightarrow> ((c, neg l) # ws', k'))"

subsection \<open>Weighted conversions\<close>

text \<open>
  In the functions below the statements of the source stand in their order. A
  \<^verbatim>\<open>SASSERT(k.is_unsigned())\<close> that fails ends the call with \<open>AssertionViolation\<close>.
  \<^verbatim>\<open>null_literal\<close> is \<open>None\<close>.
\<close>

definition convert_pb_le :: "internalizer \<Rightarrow> expr \<Rightarrow> bool \<Rightarrow> bool \<Rightarrow> solver \<Rightarrow> (error + literal option) \<times> solver" where
  "convert_pb_le si t isRoot sign st =
     (case convert_pb_wargs si t st of
        (Inl e, st1) \<Rightarrow> (Inl e, st1)
      | (Inr wlits0, st1) \<Rightarrow>
          (case neg_wlits_rat wlits0 (- get_k t) of
             (wlits, k) \<Rightarrow>
               (case check_unsigned k of
                  Some e \<Rightarrow> (Inl e, st1)
                | None \<Rightarrow>
                    if isRoot \<and> user_scopes st1 = 0 then
                      (case (if sign then neg_wlits wlits (1 - get_unsigned k)
                             else (wlits, get_unsigned k)) of
                         (wlits', k1) \<Rightarrow> (Inr None, add_pb_ge None wlits' k1 st1))
                    else
                      (case add_var True st1 of
                         (v, st2) \<Rightarrow>
                           (Inr (Some (Literal v sign)),
                            add_pb_ge (Some v) wlits (get_unsigned k) st2)))))"

definition convert_pb_ge :: "internalizer \<Rightarrow> expr \<Rightarrow> bool \<Rightarrow> bool \<Rightarrow> solver \<Rightarrow> (error + literal option) \<times> solver" where
  "convert_pb_ge si t isRoot sign st =
     (case check_unsigned (get_k t) of
        Some e \<Rightarrow> (Inl e, st)
      | None \<Rightarrow>
          (case convert_pb_wargs si t st of
             (Inl e, st1) \<Rightarrow> (Inl e, st1)
           | (Inr wlits, st1) \<Rightarrow>
               if isRoot \<and> user_scopes st1 = 0 then
                 (case (if sign then neg_wlits wlits (1 - get_unsigned (get_k t))
                        else (wlits, get_unsigned (get_k t))) of
                    (wlits', k1) \<Rightarrow> (Inr None, add_pb_ge None wlits' k1 st1))
               else
                 (case add_var True st1 of
                    (v, st2) \<Rightarrow>
                      (Inr (Some (Literal v sign)),
                       add_pb_ge (Some v) wlits (get_unsigned (get_k t)) st2))))"

text \<open>
  The combinator of the equality decomposition, shared by \<^verbatim>\<open>convert_pb_eq\<close> and
  \<^verbatim>\<open>convert_eq_k\<close>: a variable \<open>v\<close>, the clauses
  \<^verbatim>\<open>(~l, l1)\<close>, \<^verbatim>\<open>(~l, l2)\<close>, \<^verbatim>\<open>(~l1, ~l2, l)\<close>, the cache entry, and the literal returned.
\<close>

definition mk_eq_combinator :: "expr \<Rightarrow> bool \<Rightarrow> bool_var \<Rightarrow> bool_var \<Rightarrow> solver \<Rightarrow> literal \<times> solver" where
  "mk_eq_combinator t sign v1 v2 st =
     (case add_var False st of
        (v, st1) \<Rightarrow>
          (let l1 = Literal v1 False; l2 = Literal v2 False; l = Literal v False;
               st2 = mk_clause [neg l, l1] st1;
               st3 = mk_clause [neg l, l2] st2;
               st4 = mk_clause [neg l1, neg l2, l] st3;
               st5 = cache_insert t l st4
           in (if sign then neg l else l, st5)))"

text \<open>
  The two half-constraints of \<^verbatim>\<open>convert_pb_eq\<close>, from \<^verbatim>\<open>add_pb_ge(v1, wlits, k)\<close> to
  \<^verbatim>\<open>add_pb_ge(v2, wlits, k)\<close>; \<^verbatim>\<open>check_unsigned(k)\<close> stands between them.
\<close>

definition pb_eq_halves :: "bool_var option \<Rightarrow> bool_var option \<Rightarrow> wliteral list \<Rightarrow> rat \<Rightarrow> solver \<Rightarrow> (error + unit) \<times> solver" where
  "pb_eq_halves v1 v2 wlits0 k0 st =
     (let st1 = add_pb_ge v1 wlits0 (get_unsigned k0) st in
      case neg_wlits_rat wlits0 (- k0) of
        (wlits, k) \<Rightarrow>
          (case check_unsigned k of
             Some e \<Rightarrow> (Inl e, st1)
           | None \<Rightarrow> (Inr (), add_pb_ge v2 wlits (get_unsigned k) st1)))"

definition convert_pb_eq :: "internalizer \<Rightarrow> expr \<Rightarrow> bool \<Rightarrow> bool \<Rightarrow> solver \<Rightarrow> (error + literal option) \<times> solver" where
  "convert_pb_eq si t isRoot sign st =
     (if \<not> is_unsigned (get_k t) then (Inl AssertionViolation, st)
      else
        (case convert_pb_wargs si t st of
           (Inl e, st1) \<Rightarrow> (Inl e, st1)
         | (Inr wlits, st1) \<Rightarrow>
             if isRoot \<and> \<not> sign \<and> user_scopes st1 = 0 then
               (case pb_eq_halves None None wlits (get_k t) st1 of
                  (Inl e, st2) \<Rightarrow> (Inl e, st2)
                | (Inr u, st2) \<Rightarrow> (Inr None, st2))
             else
               (case add_var True st1 of
                  (v1, sa) \<Rightarrow>
                    (case add_var True sa of
                       (v2, sb) \<Rightarrow>
                         (case pb_eq_halves (Some v1) (Some v2) wlits (get_k t) sb of
                            (Inl e, st2) \<Rightarrow> (Inl e, st2)
                          | (Inr u, st2) \<Rightarrow>
                              (case mk_eq_combinator t sign v1 v2 st2 of
                                 (l, st3) \<Rightarrow> (Inr (Some l), st3)))))))"

subsection \<open>Cardinality conversions\<close>

definition convert_at_least_k :: "internalizer \<Rightarrow> expr \<Rightarrow> rat \<Rightarrow> bool \<Rightarrow> bool \<Rightarrow> solver \<Rightarrow> (error + literal option) \<times> solver" where
  "convert_at_least_k si t k isRoot sign st =
     (if \<not> is_unsigned k then (Inl AssertionViolation, st)
      else
        (case convert_pb_args si (args t) [] st of
           (lits, st1) \<Rightarrow>
             if isRoot \<and> user_scopes st1 = 0 then
               (if sign
                then (Inr None,
                      add_at_least None (map neg lits)
                        (word_of_nat (length lits) + 1 - get_unsigned k) st1)
                else (Inr None, add_at_least None lits (get_unsigned k) st1))
             else
               (case add_var True st1 of
                  (v, st2) \<Rightarrow>
                    (let lit = Literal v False;
                         st3 = add_at_least (Some v) lits (get_unsigned k) st2;
                         st4 = cache_insert t lit st3
                     in (Inr (Some (if sign then neg lit else lit)), st4)))))"

definition convert_at_most_k :: "internalizer \<Rightarrow> expr \<Rightarrow> rat \<Rightarrow> bool \<Rightarrow> bool \<Rightarrow> solver \<Rightarrow> (error + literal option) \<times> solver" where
  "convert_at_most_k si t k isRoot sign st =
     (if \<not> is_unsigned k then (Inl AssertionViolation, st)
      else
        (case convert_pb_args si (args t) [] st of
           (lits0, st1) \<Rightarrow>
             (let lits = map neg lits0;
                  k2 = word_of_nat (length lits) - get_unsigned k
              in if isRoot \<and> user_scopes st1 = 0 then
                   (if sign
                    then (Inr None,
                          add_at_least None (map neg lits)
                            (word_of_nat (length lits) + 1 - k2) st1)
                    else (Inr None, add_at_least None lits k2 st1))
                 else
                   (case add_var True st1 of
                      (v, st2) \<Rightarrow>
                        (let lit = Literal v False;
                             st3 = add_at_least (Some v) lits k2 st2;
                             st4 = cache_insert t lit st3
                         in (Inr (Some (if sign then neg lit else lit)), st4))))))"

definition convert_eq_k :: "internalizer \<Rightarrow> expr \<Rightarrow> rat \<Rightarrow> bool \<Rightarrow> bool \<Rightarrow> solver \<Rightarrow> (error + literal option) \<times> solver" where
  "convert_eq_k si t k isRoot sign st =
     (if \<not> is_unsigned k then (Inl AssertionViolation, st)
      else
        (case convert_pb_args si (args t) [] st of
           (lits, st1) \<Rightarrow>
             if isRoot \<and> \<not> sign then
               (let st2 = add_at_least None lits (get_unsigned k) st1;
                    st3 = add_at_least None (map neg lits)
                            (word_of_nat (length lits) - get_unsigned k) st2
                in (Inr None, st3))
             else
               (case add_var True st1 of
                  (v1, sa) \<Rightarrow>
                    (case add_var True sa of
                       (v2, sb) \<Rightarrow>
                         (let st2 = add_at_least (Some v1) lits (get_unsigned k) sb;
                              st3 = add_at_least (Some v2) (map neg lits)
                                      (word_of_nat (length lits) - get_unsigned k) st2
                          in case mk_eq_combinator t sign v1 v2 st3 of
                               (l, st4) \<Rightarrow> (Inr (Some l), st4))))))"

subsection \<open>The dispatcher of pseudo-boolean terms\<close>

definition internalize_pb :: "internalizer \<Rightarrow> expr \<Rightarrow> bool \<Rightarrow> bool \<Rightarrow> solver \<Rightarrow> (error + literal option) \<times> solver" where
  "internalize_pb si e sign isRoot st =
     (case e of
        App kind k cs as \<Rightarrow>
          (case kind of
             OP_AT_MOST_K \<Rightarrow> convert_at_most_k si e k isRoot sign st
           | OP_AT_LEAST_K \<Rightarrow> convert_at_least_k si e k isRoot sign st
           | OP_PB_LE \<Rightarrow>
               if has_unit_coefficients e then convert_at_most_k si e k isRoot sign st
               else convert_pb_le si e isRoot sign st
           | OP_PB_GE \<Rightarrow>
               if has_unit_coefficients e then convert_at_least_k si e k isRoot sign st
               else convert_pb_ge si e isRoot sign st
           | OP_PB_EQ \<Rightarrow>
               if has_unit_coefficients e then convert_eq_k si e k isRoot sign st
               else convert_pb_eq si e isRoot sign st)
      | _ \<Rightarrow> (Inl AssertionViolation, st))"

subsection \<open>Xor\<close>

text \<open>The closure \<^verbatim>\<open>add_expr\<close> of \<^verbatim>\<open>internalize_xor\<close>.\<close>

definition add_expr :: "internalizer \<Rightarrow> expr \<Rightarrow> literal list \<Rightarrow> solver \<Rightarrow> literal list \<times> solver" where
  "add_expr si a lits st =
     (case si a (is_redundant st) st of
        (lit, st1) \<Rightarrow> (lits @ [lit], set_external (lit_var lit) st1))"

text \<open>\<^verbatim>\<open>while (m.is_iff(e, e1, e)) add_expr(e1); add_expr(e);\<close>\<close>

fun collect_iff :: "internalizer \<Rightarrow> expr \<Rightarrow> literal list \<Rightarrow> solver \<Rightarrow> literal list \<times> solver" where
  "collect_iff si (Iff e1 e) lits st =
     (case add_expr si e1 lits st of (lits1, st1) \<Rightarrow> collect_iff si e lits1 st1)"
| "collect_iff si e lits st = add_expr si e lits st"

text \<open>\<^verbatim>\<open>for (unsigned i = 1; i + 1 < lits.size(); ++i) lits[i].neg();\<close>\<close>

function neg_inner :: "nat \<Rightarrow> literal list \<Rightarrow> literal list" where
  "neg_inner i lits =
     (if i + 1 < length lits then neg_inner (i + 1) (lits[i := neg (lits ! i)]) else lits)"
  by pat_completeness auto
termination
  by (relation "measure (\<lambda>(i, lits). length lits - i)") auto

declare neg_inner.simps [simp del]

definition cut_add_xor :: "literal \<Rightarrow> literal list \<Rightarrow> solver \<Rightarrow> solver" where
  "cut_add_xor h lits st =
     (case cut_simplifier st of
        None \<Rightarrow> st
      | Some xors \<Rightarrow> st\<lparr>cut_simplifier := Some (xors @ [(h, lits)])\<rparr>)"

definition internalize_xor :: "internalizer \<Rightarrow> expr \<Rightarrow> bool \<Rightarrow> bool \<Rightarrow> solver \<Rightarrow> literal \<times> solver" where
  "internalize_xor si e sign isRoot st =
     (case add_var True st of
        (v, st1) \<Rightarrow>
          (case collect_iff si e [Literal v True] st1 of
             (lits0, st2) \<Rightarrow>
               (let lits = neg_inner 1 lits0;
                    st3 = add_xr lits (is_redundant st2) st2;
                    st4 = cut_add_xor (neg (last lits)) (tl lits) st3
                in (Literal v sign, st4))))"

subsection \<open>The entry point\<close>

text \<open>
  \<^verbatim>\<open>flet<bool> _redundant(m_is_redundant, redundant)\<close> sets the flag for the call and
  restores it when the call is left.
\<close>

definition internalize :: "internalizer \<Rightarrow> expr \<Rightarrow> bool \<Rightarrow> bool \<Rightarrow> bool \<Rightarrow> solver \<Rightarrow> (error + literal option) \<times> solver" where
  "internalize si e sign isRoot redundant st =
     (let old = is_redundant st; st0 = st\<lparr>is_redundant := redundant\<rparr> in
      case (case e of
              App kind k cs as \<Rightarrow> internalize_pb si e sign isRoot st0
            | Xor es \<Rightarrow>
                (case internalize_xor si e sign isRoot st0 of
                   (l, st1) \<Rightarrow> (Inr (Some l), st1))
            | _ \<Rightarrow> (Inl Unreachable, st0)) of
        (r, st1) \<Rightarrow> (r, st1\<lparr>is_redundant := old\<rparr>))"

subsection \<open>A concrete setting for the scenarios\<close>

text \<open>
  An operand internalizer for terms whose operands are atoms: the atom \<open>x\<^sub>n\<close> is the
  variable \<open>n\<close> of the solver, already there, and internalizing it changes nothing.
\<close>

definition si_atom :: internalizer where
  "si_atom e redundant st = (case e of Atom n \<Rightarrow> (Literal n False, st) | _ \<Rightarrow> (Literal 0 False, st))"

text \<open>A solver holding the variables 0 to 3, an empty store, and the given number of user scopes.\<close>

definition solver0 :: "nat \<Rightarrow> solver" where
  "solver0 scopes =
     \<lparr>vars = [False, False, False, False], external = {}, constraints = [], clauses = [],
      cache = [], user_scopes = scopes, is_redundant = False, cut_simplifier = None\<rparr>"

text \<open>The terms of the scenarios. Scenario 2 of the specification: \<open>2\<cdot>x\<^sub>1 + 3\<cdot>x\<^sub>2 + 1\<cdot>x\<^sub>3 \<ge> 4\<close>.\<close>

definition scenario2 :: expr where
  "scenario2 = App OP_PB_GE 4 [2, 3, 1] [Atom 1, Atom 2, Atom 3]"

text \<open>Scenario 3 of the specification: \<open>x\<^sub>1 \<leftrightarrow> x\<^sub>2 \<leftrightarrow> x\<^sub>3\<close>, nested to the right.\<close>

definition scenario3 :: expr where
  "scenario3 = Iff (Atom 1) (Iff (Atom 2) (Atom 3))"

text \<open>\<open>x\<^sub>1 + x\<^sub>2 = 1\<close>, with unit coefficients.\<close>

definition eq_unit_term :: expr where
  "eq_unit_term = App OP_PB_EQ 1 [1, 1] [Atom 1, Atom 2]"

text \<open>\<open>2\<cdot>x\<^sub>1 + 3\<cdot>x\<^sub>2 + 1\<cdot>x\<^sub>3 = 4\<close>.\<close>

definition eq_weighted_ok :: expr where
  "eq_weighted_ok = App OP_PB_EQ 4 [2, 3, 1] [Atom 1, Atom 2, Atom 3]"

text \<open>\<open>2\<cdot>x\<^sub>1 + 3\<cdot>x\<^sub>2 = 6\<close>: the threshold is above the total weight 5.\<close>

definition eq_weighted_term :: expr where
  "eq_weighted_term = App OP_PB_EQ 6 [2, 3] [Atom 1, Atom 2]"

text \<open>\<open>1\<cdot>x\<^sub>1 + 2\<cdot>x\<^sub>2 \<ge> 5\<close>: the threshold is above the total weight 3.\<close>

definition ge_large_k_term :: expr where
  "ge_large_k_term = App OP_PB_GE 5 [1, 2] [Atom 1, Atom 2]"

text \<open>\<open>x\<^sub>1 + x\<^sub>2 + x\<^sub>3 \<le> 5\<close>, with unit coefficients: the threshold is above the 3 literals.\<close>

definition le_unit_term :: expr where
  "le_unit_term = App OP_PB_LE 5 [1, 1, 1] [Atom 1, Atom 2, Atom 3]"

text \<open>\<open>x\<^sub>1 + x\<^sub>2 = 5\<close>, with unit coefficients: the threshold is above the 2 literals.\<close>

definition eq_unit_large_k :: expr where
  "eq_unit_large_k = App OP_PB_EQ 5 [1, 1] [Atom 1, Atom 2]"

subsection \<open>Notions used to state the properties\<close>

text \<open>The literals of a weighted list complemented, and the total weight \<open>C\<close> of the list.\<close>

definition complement :: "wliteral list \<Rightarrow> wliteral list" where
  "complement ws = map (\<lambda>wl. (fst wl, neg (snd wl))) ws"

definition total_weight :: "wliteral list \<Rightarrow> nat" where
  "total_weight ws = sum_list (map (\<lambda>wl. unat (fst wl)) ws)"

text \<open>
  The members of a chain of equivalences nested to the right: the left operand of each
  equivalence, then the last right operand.
\<close>

fun chain_members :: "expr \<Rightarrow> expr list" where
  "chain_members (Iff e1 e) = e1 # chain_members e"
| "chain_members e = [e]"

text \<open>
  An outcome with the returned literal complemented; the error, if the call failed, and
  the solver stay as they are.
\<close>

definition flip_returned :: "(error + literal option) \<times> solver \<Rightarrow> (error + literal option) \<times> solver" where
  "flip_returned r = (map_sum id (map_option neg) (fst r), snd r)"

text \<open>
  The meaning of constraints (section 3 of the specification) under an assignment of the
  variables: a literal holds when its variable has the value its polarity asks for; a
  weighted constraint holds when the coefficients of the literals that hold sum to the
  threshold or more; a cardinality constraint holds when at least the threshold's number
  of literals hold.
\<close>

fun lit_holds :: "(bool_var \<Rightarrow> bool) \<Rightarrow> literal \<Rightarrow> bool" where
  "lit_holds a (Literal v s) = (a v \<noteq> s)"

definition pb_weight :: "(bool_var \<Rightarrow> bool) \<Rightarrow> wliteral list \<Rightarrow> nat" where
  "pb_weight a ws = sum_list (map (\<lambda>wl. if lit_holds a (snd wl) then unat (fst wl) else 0) ws)"

definition pb_holds :: "(bool_var \<Rightarrow> bool) \<Rightarrow> wliteral list \<Rightarrow> u32 \<Rightarrow> bool" where
  "pb_holds a ws k = (unat k \<le> pb_weight a ws)"

definition card_holds :: "(bool_var \<Rightarrow> bool) \<Rightarrow> literal list \<Rightarrow> u32 \<Rightarrow> bool" where
  "card_holds a lits k = (unat k \<le> length (filter (lit_holds a) lits))"

section \<open>Properties\<close>

lemmas solver_ops =
  add_var_def set_external_def add_at_least_def add_pb_ge_def add_xr_def mk_clause_def
  cache_insert_def

lemmas eval_defs =
  solver_ops si_atom_def solver0_def is_unsigned_def get_unsigned_def check_unsigned_def
  pb_coeffs_def has_unit_coefficients_def convert_pb_wargs_def Let_def

lemmas convert_defs =
  internalize_def internalize_pb_def convert_pb_le_def convert_pb_ge_def convert_pb_eq_def
  convert_at_least_k_def convert_at_most_k_def convert_eq_k_def pb_eq_halves_def
  mk_eq_combinator_def

subsection \<open>The loops\<close>

lemma neg_neg [simp]: "neg (neg l) = l"
  by (cases l) simp

lemma neg_wlits_eq:
  "neg_wlits ws k1 = (complement ws, foldl (\<lambda>acc wl. acc + fst wl) k1 ws)"
  by (induction ws arbitrary: k1) (auto simp: complement_def)

lemma neg_wlits_rat_eq:
  "neg_wlits_rat ws k = (complement ws, k + of_nat (total_weight ws))"
  by (induction ws arbitrary: k) (auto simp: complement_def total_weight_def)

lemma foldl_acc_word:
  "foldl (\<lambda>acc wl. acc + fst wl) (k1 :: u32) ws = k1 + word_of_nat (total_weight ws)"
  by (induction ws arbitrary: k1) (auto simp: total_weight_def)

lemma total_weight_complement [simp]: "total_weight (complement ws) = total_weight ws"
  by (simp add: total_weight_def complement_def comp_def)

lemma complement_complement [simp]: "complement (complement ws) = ws"
  by (simp add: complement_def comp_def)

lemma check_unsigned_None [simp]: "is_unsigned c \<Longrightarrow> check_unsigned c = None"
  by (simp add: check_unsigned_def)

lemma convert_pb_args_acc:
  "convert_pb_args si es lits st =
     (case convert_pb_args si es [] st of (ms, st') \<Rightarrow> (lits @ ms, st'))"
proof (induction es arbitrary: lits st)
  case Nil
  show ?case by simp
next
  case (Cons a es)
  obtain l st1 where s: "si a (is_redundant st) st = (l, st1)"
    by (cases "si a (is_redundant st) st")
  show ?case
    using Cons.IH [of "lits @ [l]" "set_external (lit_var l) st1"]
      Cons.IH [of "[l]" "set_external (lit_var l) st1"]
    by (simp add: s split: prod.splits)
qed

lemma convert_pb_args_length:
  "convert_pb_args si es lits st = (ms, st') \<Longrightarrow> length ms = length lits + length es"
proof (induction es arbitrary: lits st)
  case Nil
  then show ?case by simp
next
  case (Cons a es)
  then show ?case by (auto split: prod.splits)
qed

lemma collect_iff_eq:
  "collect_iff si e lits st = convert_pb_args si (chain_members e) lits st"
  by (induction si e lits st rule: collect_iff.induct)
     (simp_all add: add_expr_def split: prod.splits)

lemma neg_inner_from:
  "neg_inner (length pre) (pre @ ys @ [z]) = pre @ map neg ys @ [z]"
proof (induction ys arbitrary: pre)
  case Nil
  show ?case by (simp add: neg_inner.simps [of "length pre" "pre @ [z]"])
next
  case (Cons y ys)
  have "neg_inner (length pre) (pre @ (y # ys) @ [z])
          = neg_inner (length (pre @ [neg y])) ((pre @ [neg y]) @ ys @ [z])"
    by (subst neg_inner.simps) (simp add: nth_append list_update_append)
  also have "\<dots> = (pre @ [neg y]) @ map neg ys @ [z]"
    by (rule Cons.IH)
  finally show ?case by simp
qed

lemma neg_inner_one:
  assumes "ms \<noteq> []"
  shows "neg_inner (Suc 0) (x # ms) = x # map neg (butlast ms) @ [last ms]"
proof -
  have "neg_inner (length [x]) ([x] @ butlast ms @ [last ms])
          = [x] @ map neg (butlast ms) @ [last ms]"
    by (rule neg_inner_from)
  with assms show ?thesis by simp
qed

subsection \<open>Thresholds as numbers\<close>

lemma uint_word_of_int_32: "uint (word_of_int x :: u32) = x mod 2 ^ 32"
  by (simp add: uint_word_of_int take_bit_eq_mod)

lemma uint_get_unsigned: "is_unsigned k \<Longrightarrow> uint (get_unsigned k) = \<lfloor>k\<rfloor>"
  unfolding is_unsigned_def get_unsigned_def
  by (simp add: uint_word_of_int)

lemma negated_threshold_value:
  "uint (foldl (\<lambda>acc wl. acc + fst wl) (1 - get_unsigned k) ws)
     = (int (total_weight ws) + 1 - \<lfloor>k\<rfloor>) mod 2 ^ 32"
proof -
  have "1 - word_of_int \<lfloor>k\<rfloor> + word_of_nat (total_weight ws)
          = (word_of_int (int (total_weight ws) + 1 - \<lfloor>k\<rfloor>) :: u32)"
    by simp
  then have "foldl (\<lambda>acc wl. acc + fst wl) (1 - get_unsigned k) ws
          = (word_of_int (int (total_weight ws) + 1 - \<lfloor>k\<rfloor>) :: u32)"
    by (simp only: foldl_acc_word get_unsigned_def)
  then show ?thesis
    by (simp only: uint_word_of_int_32)
qed

lemma eq_k_threshold_value:
  "uint (word_of_nat n - get_unsigned k :: u32) = (int n - \<lfloor>k\<rfloor>) mod 2 ^ 32"
proof -
  have "word_of_nat n - word_of_int \<lfloor>k\<rfloor> = (word_of_int (int n - \<lfloor>k\<rfloor>) :: u32)"
    by simp
  then show ?thesis
    by (simp only: get_unsigned_def uint_word_of_int_32)
qed

lemma second_half_threshold_value:
  assumes "is_unsigned (of_nat c - k)"
  shows "uint (get_unsigned (of_nat c - k)) = int c - \<lfloor>k\<rfloor>"
proof -
  have "of_int \<lfloor>of_nat c - k\<rfloor> = of_nat c - k"
    using assms by (simp add: is_unsigned_def)
  then have "k = of_nat c - of_int \<lfloor>of_nat c - k\<rfloor>"
    by linarith
  then have "k = of_int (int c - \<lfloor>of_nat c - k\<rfloor>)"
    by (simp only: of_int_diff of_int_of_nat_eq)
  then have "\<lfloor>k\<rfloor> = int c - \<lfloor>of_nat c - k\<rfloor>"
    by (metis floor_of_int)
  then show ?thesis
    using uint_get_unsigned [OF assms] by simp
qed

section \<open>The claims\<close>

subsection \<open>Root assertion and reification\<close>

text \<open>
  C1. The claim: a conversion asserts directly, with no tag and no literal returned,
  exactly at a root with no open user scope (and \<open>sign = false\<close> for the equality
  decomposition); at a root inside an open user scope a variable is minted and a literal
  returned. \<^verbatim>\<open>convert_eq_k\<close> does not look at the user scopes: for \<open>x\<^sub>1 + x\<^sub>2 = 1\<close> at a
  root with \<open>sign = false\<close> and one open user scope it mints nothing, hands the store two
  constraints with no tag and returns no literal. \<^verbatim>\<open>convert_pb_eq\<close>, on
  \<open>2\<cdot>x\<^sub>1 + 3\<cdot>x\<^sub>2 + 1\<cdot>x\<^sub>3 = 4\<close> in the same solver, mints its variables and returns the
  literal of the combinator.
\<close>

theorem convert_eq_k_root_in_user_scope:
  "has_unit_coefficients eq_unit_term
   \<and> internalize si_atom eq_unit_term False True False (solver0 1) =
       (Inr None,
        (solver0 1)\<lparr>external := {2, 1},
          constraints := [Card None [Literal 1 False, Literal 2 False] 1,
                          Card None [Literal 1 True, Literal 2 True] 1]\<rparr>)
   \<and> fst (internalize si_atom eq_weighted_ok False True False (solver0 1))
       = Inr (Some (Literal 6 False))
   \<and> vars (snd (internalize si_atom eq_weighted_ok False True False (solver0 1)))
       = [False, False, False, False, True, True, False]"
  by (simp add: eq_unit_term_def eq_weighted_ok_def convert_defs eval_defs)

subsection \<open>Rejected terms and the store\<close>

text \<open>
  C2. The claim: a term rejected by \<^verbatim>\<open>check_unsigned\<close> leaves the store as it was.
  \<^verbatim>\<open>convert_pb_eq\<close> hands the first half-constraint to the store before it checks the
  threshold of the second: for \<open>2\<cdot>x\<^sub>1 + 3\<cdot>x\<^sub>2 = 6\<close> the second threshold is \<open>5 - 6\<close>, the
  call ends with the exception, and the store holds the first half-constraint, tagged
  with the first of the two variables minted. At a root with no user scope the
  half-constraint left behind has no tag.
\<close>

theorem convert_pb_eq_partial_commit:
  "internalize si_atom eq_weighted_term False False False (solver0 0) =
     (Inl CoefficientOutOfRange,
      (solver0 0)\<lparr>vars := [False, False, False, False, True, True], external := {2, 1},
        constraints := [Pb (Some 4) [(2, Literal 1 False), (3, Literal 2 False)] 6]\<rparr>)
   \<and> internalize si_atom eq_weighted_term False True False (solver0 0) =
     (Inl CoefficientOutOfRange,
      (solver0 0)\<lparr>external := {2, 1},
        constraints := [Pb None [(2, Literal 1 False), (3, Literal 2 False)] 6]\<rparr>)
   \<and> constraints (solver0 0) = []"
  by (simp add: eq_weighted_term_def convert_defs eval_defs)

subsection \<open>Negation of a weighted constraint at an unconditional root\<close>

text \<open>
  C3. At a root with no open user scope and \<open>sign = true\<close>, the constraint handed to the
  store has no tag, the complemented literals with their coefficients, and the
  threshold computed by the accumulator: start at \<open>1 - k\<close>, add each coefficient, in
  32-bit unsigned arithmetic. Its value is \<open>(C + 1 - k) mod 2^32\<close> for the total weight
  \<open>C\<close>. For \<^verbatim>\<open>convert_pb_ge\<close> the constraint negated is the term itself, with the
  literals \<open>wlits\<close> and the threshold \<open>k\<close>; for \<^verbatim>\<open>convert_pb_le\<close> it is the
  \<open>\<ge>\<close>-shape of the term, with the literals \<open>complement wlits\<close> and the threshold
  \<open>C - k\<close>.
\<close>

theorem weighted_negation_at_root:
  assumes "convert_pb_wargs si t st = (Inr wlits, st1)" and "user_scopes st1 = 0"
  shows "(is_unsigned (get_k t) \<longrightarrow>
            convert_pb_ge si t True True st =
              (Inr None,
               add_pb_ge None (complement wlits)
                 (foldl (\<lambda>acc wl. acc + fst wl) (1 - get_unsigned (get_k t)) wlits) st1)
            \<and> uint (foldl (\<lambda>acc wl. acc + fst wl) (1 - get_unsigned (get_k t)) wlits)
                = (int (total_weight wlits) + 1 - \<lfloor>get_k t\<rfloor>) mod 2 ^ 32)
       \<and> (is_unsigned (of_nat (total_weight wlits) - get_k t) \<longrightarrow>
            convert_pb_le si t True True st =
              (Inr None,
               add_pb_ge None (complement (complement wlits))
                 (foldl (\<lambda>acc wl. acc + fst wl)
                    (1 - get_unsigned (of_nat (total_weight wlits) - get_k t))
                    (complement wlits)) st1)
            \<and> uint (foldl (\<lambda>acc wl. acc + fst wl)
                       (1 - get_unsigned (of_nat (total_weight wlits) - get_k t))
                       (complement wlits))
                = (int (total_weight wlits) + 1
                     - \<lfloor>of_nat (total_weight wlits) - get_k t\<rfloor>) mod 2 ^ 32)"
proof -
  have ge: "convert_pb_ge si t True True st =
              (Inr None,
               add_pb_ge None (complement wlits)
                 (foldl (\<lambda>acc wl. acc + fst wl) (1 - get_unsigned (get_k t)) wlits) st1)"
    if "is_unsigned (get_k t)"
    using that assms by (simp add: convert_pb_ge_def neg_wlits_eq)
  have le: "convert_pb_le si t True True st =
              (Inr None,
               add_pb_ge None (complement (complement wlits))
                 (foldl (\<lambda>acc wl. acc + fst wl)
                    (1 - get_unsigned (of_nat (total_weight wlits) - get_k t))
                    (complement wlits)) st1)"
    if "is_unsigned (of_nat (total_weight wlits) - get_k t)"
    using that assms by (simp add: convert_pb_le_def neg_wlits_eq neg_wlits_rat_eq)
  show ?thesis
    using ge le negated_threshold_value [of "get_k t" wlits]
      negated_threshold_value [of "of_nat (total_weight wlits) - get_k t" "complement wlits"]
    by (simp only: total_weight_complement) blast
qed

theorem weighted_negation_at_root_witness:
  "convert_pb_wargs si_atom scenario2 (solver0 0) =
     (Inr [(2, Literal 1 False), (3, Literal 2 False), (1, Literal 3 False)],
      (solver0 0)\<lparr>external := {3, 2, 1}\<rparr>)
   \<and> user_scopes ((solver0 0)\<lparr>external := {3, 2, 1}\<rparr>) = 0
   \<and> is_unsigned (get_k scenario2)
   \<and> convert_pb_ge si_atom scenario2 True True (solver0 0) =
       (Inr None,
        (solver0 0)\<lparr>external := {3, 2, 1},
          constraints := [Pb None [(2, Literal 1 True), (3, Literal 2 True), (1, Literal 3 True)] 3]\<rparr>)
   \<and> is_unsigned (6 - get_k scenario2)
   \<and> convert_pb_le si_atom scenario2 True True (solver0 0) =
       (Inr None,
        (solver0 0)\<lparr>external := {3, 2, 1},
          constraints := [Pb None [(2, Literal 1 False), (3, Literal 2 False), (1, Literal 3 False)] 5]\<rparr>)"
proof -
  have h1: "convert_pb_wargs si_atom scenario2 (solver0 0) =
     (Inr [(2, Literal 1 False), (3, Literal 2 False), (1, Literal 3 False)],
      (solver0 0)\<lparr>external := {3, 2, 1}\<rparr>)"
    by (simp add: scenario2_def eval_defs)
  have h2: "user_scopes ((solver0 0)\<lparr>external := {3, 2, 1}\<rparr>) = 0"
    by (simp add: solver0_def)
  show ?thesis
    using h1 h2 weighted_negation_at_root [OF h1 h2]
    by (simp add: scenario2_def complement_def total_weight_def is_unsigned_def get_unsigned_def
          add_pb_ge_def solver0_def)
qed

subsection \<open>The equality decomposition, reified\<close>

text \<open>
  What the reifying branch does. It mints \<open>v1\<close> and \<open>v2\<close>, hands the store the
  half-constraint over the literals with the tag \<open>v1\<close> and the half-constraint over the
  complemented literals with the tag \<open>v2\<close>, mints \<open>v\<close>, adds exactly the clauses
  \<open>(\<not>v \<or> v1)\<close>, \<open>(\<not>v \<or> v2)\<close>, \<open>(\<not>v1 \<or> \<not>v2 \<or> v)\<close>, caches the term and returns
  \<open>Literal v sign\<close>. In \<^verbatim>\<open>convert_pb_eq\<close> the second threshold is \<open>C - k\<close>, which
  \<^verbatim>\<open>check_unsigned\<close> has accepted. In \<^verbatim>\<open>convert_eq_k\<close> it is \<^verbatim>\<open>lits.size() - k\<close> on
  \<^verbatim>\<open>unsigned\<close>, which is \<open>n - k\<close> only when \<open>k \<le> n\<close>. \<^verbatim>\<open>convert_pb_eq\<close> takes the branch
  unless the call is at a root with \<open>sign = false\<close> and no user scope, \<^verbatim>\<open>convert_eq_k\<close>
  unless it is at a root with \<open>sign = false\<close>.
\<close>

lemma equality_reified_branch:
  assumes "v1 = length (vars st1)" and "v2 = v1 + 1" and "v = v1 + 2"
  shows "(is_unsigned (get_k t) \<and> convert_pb_wargs si t st = (Inr wlits, st1)
          \<and> \<not> (isRoot \<and> \<not> sign \<and> user_scopes st1 = 0)
          \<and> is_unsigned (of_nat (total_weight wlits) - get_k t) \<longrightarrow>
            convert_pb_eq si t isRoot sign st =
              (Inr (Some (Literal v sign)),
               st1\<lparr>vars := vars st1 @ [True, True, False],
                 constraints := constraints st1 @
                   [Pb (Some v1) wlits (get_unsigned (get_k t)),
                    Pb (Some v2) (complement wlits)
                      (get_unsigned (of_nat (total_weight wlits) - get_k t))],
                 clauses := clauses st1 @
                   [[Literal v True, Literal v1 False],
                    [Literal v True, Literal v2 False],
                    [Literal v1 True, Literal v2 True, Literal v False]],
                 cache := (t, Literal v False) # cache st1\<rparr>)
            \<and> uint (get_unsigned (of_nat (total_weight wlits) - get_k t))
                = int (total_weight wlits) - \<lfloor>get_k t\<rfloor>)
       \<and> (is_unsigned k \<and> convert_pb_args si (args t) [] st = (lits, st1)
          \<and> \<not> (isRoot \<and> \<not> sign) \<longrightarrow>
            convert_eq_k si t k isRoot sign st =
              (Inr (Some (Literal v sign)),
               st1\<lparr>vars := vars st1 @ [True, True, False],
                 constraints := constraints st1 @
                   [Card (Some v1) lits (get_unsigned k),
                    Card (Some v2) (map neg lits) (word_of_nat (length lits) - get_unsigned k)],
                 clauses := clauses st1 @
                   [[Literal v True, Literal v1 False],
                    [Literal v True, Literal v2 False],
                    [Literal v1 True, Literal v2 True, Literal v False]],
                 cache := (t, Literal v False) # cache st1\<rparr>)
            \<and> uint (word_of_nat (length lits) - get_unsigned k :: u32)
                = (int (length lits) - \<lfloor>k\<rfloor>) mod 2 ^ 32)"
proof -
  have pb: "convert_pb_eq si t isRoot sign st =
              (Inr (Some (Literal v sign)),
               st1\<lparr>vars := vars st1 @ [True, True, False],
                 constraints := constraints st1 @
                   [Pb (Some v1) wlits (get_unsigned (get_k t)),
                    Pb (Some v2) (complement wlits)
                      (get_unsigned (of_nat (total_weight wlits) - get_k t))],
                 clauses := clauses st1 @
                   [[Literal v True, Literal v1 False],
                    [Literal v True, Literal v2 False],
                    [Literal v1 True, Literal v2 True, Literal v False]],
                 cache := (t, Literal v False) # cache st1\<rparr>)"
    if "is_unsigned (get_k t)" "convert_pb_wargs si t st = (Inr wlits, st1)"
       "\<not> (isRoot \<and> \<not> sign \<and> user_scopes st1 = 0)"
       "is_unsigned (of_nat (total_weight wlits) - get_k t)"
    using that assms
    by (auto simp: convert_pb_eq_def pb_eq_halves_def mk_eq_combinator_def solver_ops
          neg_wlits_rat_eq Let_def)
  have card: "convert_eq_k si t k isRoot sign st =
              (Inr (Some (Literal v sign)),
               st1\<lparr>vars := vars st1 @ [True, True, False],
                 constraints := constraints st1 @
                   [Card (Some v1) lits (get_unsigned k),
                    Card (Some v2) (map neg lits) (word_of_nat (length lits) - get_unsigned k)],
                 clauses := clauses st1 @
                   [[Literal v True, Literal v1 False],
                    [Literal v True, Literal v2 False],
                    [Literal v1 True, Literal v2 True, Literal v False]],
                 cache := (t, Literal v False) # cache st1\<rparr>)"
    if "is_unsigned k" "convert_pb_args si (args t) [] st = (lits, st1)"
       "\<not> (isRoot \<and> \<not> sign)"
    using that assms
    by (auto simp: convert_eq_k_def mk_eq_combinator_def solver_ops Let_def)
  show ?thesis
    using pb card second_half_threshold_value [of "total_weight wlits" "get_k t"]
      eq_k_threshold_value [of "length lits" k]
    by blast
qed

lemma equality_reified_branch_example:
  "is_unsigned (get_k eq_weighted_ok)
   \<and> convert_pb_wargs si_atom eq_weighted_ok (solver0 0) =
       (Inr [(2, Literal 1 False), (3, Literal 2 False), (1, Literal 3 False)],
        (solver0 0)\<lparr>external := {3, 2, 1}\<rparr>)
   \<and> is_unsigned (6 - get_k eq_weighted_ok)
   \<and> convert_pb_eq si_atom eq_weighted_ok False True (solver0 0) =
       (Inr (Some (Literal 6 True)),
        (solver0 0)\<lparr>vars := [False, False, False, False, True, True, False],
          external := {3, 2, 1},
          constraints :=
            [Pb (Some 4) [(2, Literal 1 False), (3, Literal 2 False), (1, Literal 3 False)] 4,
             Pb (Some 5) [(2, Literal 1 True), (3, Literal 2 True), (1, Literal 3 True)] 2],
          clauses :=
            [[Literal 6 True, Literal 4 False],
             [Literal 6 True, Literal 5 False],
             [Literal 4 True, Literal 5 True, Literal 6 False]],
          cache := [(eq_weighted_ok, Literal 6 False)]\<rparr>)
   \<and> is_unsigned 2
   \<and> convert_pb_args si_atom (args eq_weighted_ok) [] (solver0 0) =
       ([Literal 1 False, Literal 2 False, Literal 3 False],
        (solver0 0)\<lparr>external := {3, 2, 1}\<rparr>)
   \<and> convert_eq_k si_atom eq_weighted_ok 2 False True (solver0 0) =
       (Inr (Some (Literal 6 True)),
        (solver0 0)\<lparr>vars := [False, False, False, False, True, True, False],
          external := {3, 2, 1},
          constraints :=
            [Card (Some 4) [Literal 1 False, Literal 2 False, Literal 3 False] 2,
             Card (Some 5) [Literal 1 True, Literal 2 True, Literal 3 True] 1],
          clauses :=
            [[Literal 6 True, Literal 4 False],
             [Literal 6 True, Literal 5 False],
             [Literal 4 True, Literal 5 True, Literal 6 False]],
          cache := [(eq_weighted_ok, Literal 6 False)]\<rparr>)"
proof -
  have h1: "convert_pb_wargs si_atom eq_weighted_ok (solver0 0) =
       (Inr [(2, Literal 1 False), (3, Literal 2 False), (1, Literal 3 False)],
        (solver0 0)\<lparr>external := {3, 2, 1}\<rparr>)"
    by (simp add: eq_weighted_ok_def eval_defs)
  have h2: "convert_pb_args si_atom (args eq_weighted_ok) [] (solver0 0) =
       ([Literal 1 False, Literal 2 False, Literal 3 False],
        (solver0 0)\<lparr>external := {3, 2, 1}\<rparr>)"
    by (simp add: eq_weighted_ok_def eval_defs)
  have h3: "(4::nat) = length (vars ((solver0 0)\<lparr>external := {3, 2, 1}\<rparr>))"
    by (simp add: solver0_def)
  show ?thesis
    using h1 h2
      equality_reified_branch [OF h3, of 5 6 eq_weighted_ok si_atom "solver0 0"
        "[(2, Literal 1 False), (3, Literal 2 False), (1, Literal 3 False)]" False True 2
        "[Literal 1 False, Literal 2 False, Literal 3 False]"]
    by (simp add: eq_weighted_ok_def complement_def total_weight_def is_unsigned_def
          get_unsigned_def solver0_def)
qed

text \<open>
  C4. The claim: when the equality decomposition reifies, the second half-constraint is
  \<open>\<ge> C - k\<close>, or \<open>\<ge> n - k\<close> for \<^verbatim>\<open>convert_eq_k\<close>, over the complemented literals.
  \<^verbatim>\<open>convert_eq_k\<close> computes \<^verbatim>\<open>lits.size() - k.get_unsigned()\<close> on \<^verbatim>\<open>unsigned\<close> and nothing
  checks it: for \<open>x\<^sub>1 + x\<^sub>2 = 5\<close> away from the root it mints \<open>v1 = 4\<close>, \<open>v2 = 5\<close>, \<open>v = 6\<close>,
  adds the three clauses and returns \<open>Literal 6 False\<close>, but the second half-constraint
  has the threshold \<open>2^32 - 3\<close>, not \<open>2 - 5\<close>. At least \<open>2 - 5\<close> of the two complemented
  literals hold under every assignment; the constraint stored holds under none.
  \<^verbatim>\<open>convert_pb_eq\<close> on the same term checks \<open>C - k\<close> and rejects it.
\<close>

theorem convert_eq_k_second_threshold_wraps:
  "has_unit_coefficients eq_unit_large_k
   \<and> internalize si_atom eq_unit_large_k False False False (solver0 0) =
       (Inr (Some (Literal 6 False)),
        (solver0 0)\<lparr>vars := [False, False, False, False, True, True, False],
          external := {2, 1},
          constraints :=
            [Card (Some 4) [Literal 1 False, Literal 2 False] 5,
             Card (Some 5) [Literal 1 True, Literal 2 True] 4294967293],
          clauses :=
            [[Literal 6 True, Literal 4 False],
             [Literal 6 True, Literal 5 False],
             [Literal 4 True, Literal 5 True, Literal 6 False]],
          cache := [(eq_unit_large_k, Literal 6 False)]\<rparr>)
   \<and> (\<forall>a. int 2 - 5 \<le> int (length (filter (lit_holds a) [Literal 1 True, Literal 2 True])))
   \<and> (\<forall>a. \<not> card_holds a [Literal 1 True, Literal 2 True] 4294967293)
   \<and> fst (convert_pb_eq si_atom eq_unit_large_k False False (solver0 0))
       = Inl CoefficientOutOfRange"
  by (simp add: eq_unit_large_k_def convert_defs eval_defs card_holds_def)

subsection \<open>The threshold of a negated weighted constraint\<close>

text \<open>
  C5. The claim: the threshold \<open>C + 1 - k\<close> of the negated constraint is checked to be
  non-negative and representable, and the term is rejected otherwise. At a root the
  threshold is computed on \<^verbatim>\<open>unsigned\<close> and nothing checks it: for \<open>1\<cdot>x\<^sub>1 + 2\<cdot>x\<^sub>2 \<ge> 5\<close> with
  \<open>sign = true\<close>, where \<open>C + 1 - k = -1\<close>, the call succeeds and hands the store the
  threshold \<open>2^32 - 1\<close>. The term holds under no assignment, so its negation holds under
  all of them; the constraint handed to the store holds under none.
\<close>

theorem negated_threshold_unchecked:
  "internalize si_atom ge_large_k_term True True False (solver0 0) =
     (Inr None,
      (solver0 0)\<lparr>external := {2, 1},
        constraints := [Pb None [(1, Literal 1 True), (2, Literal 2 True)] 4294967295]\<rparr>)
   \<and> (\<forall>a. \<not> pb_holds a [(1, Literal 1 False), (2, Literal 2 False)] 5)
   \<and> (\<forall>a. \<not> pb_holds a [(1, Literal 1 True), (2, Literal 2 True)] 4294967295)"
  by (simp add: ge_large_k_term_def convert_defs eval_defs pb_holds_def pb_weight_def)

subsection \<open>Chains of equivalences\<close>

text \<open>
  C6. For a chain of equivalences nested to the right, \<^verbatim>\<open>internalize_xor\<close> mints a
  variable \<open>v\<close>, internalizes the members of the chain in order (\<open>ms\<close>, one literal per
  member), and hands the store the xor constraint over \<open>Literal v True\<close> followed by the
  members' literals, every one complemented but the last; the first is not
  complemented either. It returns \<open>Literal v sign\<close>, whatever \<open>isRoot\<close> and the user scopes
  are. The constraint has no tag: \<^verbatim>\<open>add_xr\<close> takes none.
\<close>

theorem xor_chain_collected:
  assumes "convert_pb_args si (chain_members e) [] (snd (add_var True st)) = (ms, st2)"
  shows "internalize_xor si e sign isRoot st =
           (Literal (length (vars st)) sign,
            cut_add_xor (neg (last ms)) (map neg (butlast ms) @ [last ms])
              (add_xr (Literal (length (vars st)) True # map neg (butlast ms) @ [last ms])
                 (is_redundant st2) st2))
         \<and> length ms = length (chain_members e) \<and> ms \<noteq> []"
proof -
  have len: "length ms = length (chain_members e)"
    using convert_pb_args_length [OF assms] by simp
  have ne: "ms \<noteq> []"
    using len by (cases e) auto
  have c: "collect_iff si e [Literal (length (vars st)) True] (snd (add_var True st))
             = (Literal (length (vars st)) True # ms, st2)"
    using assms
    by (simp add: collect_iff_eq
          convert_pb_args_acc [of si "chain_members e" "[Literal (length (vars st)) True]"])
  show ?thesis
    using c len ne
    by (simp add: internalize_xor_def add_var_def neg_inner_one Let_def)
qed

theorem xor_chain_collected_witness:
  "convert_pb_args si_atom (chain_members scenario3) [] (snd (add_var True (solver0 0))) =
     ([Literal 1 False, Literal 2 False, Literal 3 False],
      (solver0 0)\<lparr>vars := [False, False, False, False, True], external := {3, 2, 1}\<rparr>)
   \<and> internalize_xor si_atom scenario3 False False (solver0 0) =
     (Literal 4 False,
      (solver0 0)\<lparr>vars := [False, False, False, False, True], external := {3, 2, 1},
        constraints := [Xr [Literal 4 True, Literal 1 True, Literal 2 True, Literal 3 False] False]\<rparr>)"
proof -
  have h: "convert_pb_args si_atom (chain_members scenario3) [] (snd (add_var True (solver0 0))) =
     ([Literal 1 False, Literal 2 False, Literal 3 False],
      (solver0 0)\<lparr>vars := [False, False, False, False, True], external := {3, 2, 1}\<rparr>)"
    by (simp add: scenario3_def eval_defs)
  show ?thesis
    using h xor_chain_collected [OF h, of False False]
    by (simp add: cut_add_xor_def eval_defs)
qed

subsection \<open>Scenario 2\<close>

text \<open>
  C7, as claimed: for \<open>2\<cdot>x\<^sub>1 + 3\<cdot>x\<^sub>2 + 1\<cdot>x\<^sub>3 \<ge> 4\<close> with \<open>sign = true\<close> and \<open>isRoot = false\<close> the
  constraint stored is the negated form, \<open>v \<leftrightarrow> 2\<cdot>\<not>x\<^sub>1 + 3\<cdot>\<not>x\<^sub>2 + 1\<cdot>\<not>x\<^sub>3 \<ge> 3\<close>. It is not:
  the variable minted is 4, the literal returned is \<open>Literal 4 True\<close>, and the
  constraint stored is another one.
\<close>

theorem scenario2_counterexample:
  "fst (internalize si_atom scenario2 True False False (solver0 0)) = Inr (Some (Literal 4 True))
   \<and> constraints (snd (internalize si_atom scenario2 True False False (solver0 0)))
       \<noteq> [Pb (Some 4) [(2, Literal 1 True), (3, Literal 2 True), (1, Literal 3 True)] 3]"
  by (simp add: scenario2_def convert_defs eval_defs)

text \<open>
  C7, amended: for \<open>2\<cdot>x\<^sub>1 + 3\<cdot>x\<^sub>2 + 1\<cdot>x\<^sub>3 \<ge> 4\<close> with \<open>sign = true\<close> and \<open>isRoot = false\<close>, at
  any number of user scopes, a variable \<open>v\<close> is minted, the constraint stored is the term
  as it stands, \<open>v \<leftrightarrow> 2\<cdot>x\<^sub>1 + 3\<cdot>x\<^sub>2 + 1\<cdot>x\<^sub>3 \<ge> 4\<close>, and the literal returned is
  \<open>Literal v True\<close>: the returned literal alone carries the negation.
\<close>

theorem scenario2_reified:
  "internalize si_atom scenario2 True False False (solver0 n) =
     (Inr (Some (Literal 4 True)),
      (solver0 n)\<lparr>vars := [False, False, False, False, True], external := {3, 2, 1},
        constraints := [Pb (Some 4) [(2, Literal 1 False), (3, Literal 2 False), (1, Literal 3 False)] 4]\<rparr>)"
  by (simp add: scenario2_def convert_defs eval_defs)

subsection \<open>Unit coefficients\<close>

text \<open>
  C8. The claim: a weighted term with unit coefficients goes to the cardinality path
  with the same \<open>k\<close>, and the outcome is equivalent to that of the weighted path.
  \<open>x\<^sub>1 + x\<^sub>2 + x\<^sub>3 \<le> 5\<close> goes to \<^verbatim>\<open>convert_at_most_k\<close> with \<open>k = 5\<close>, which computes the
  threshold \<open>3 - 5\<close> on \<^verbatim>\<open>unsigned\<close> and hands the store a constraint with the threshold
  \<open>2^32 - 2\<close>; \<^verbatim>\<open>convert_pb_le\<close> on the same term computes \<open>3 - 5\<close> on rationals and rejects
  the term, leaving the store as it was. At most 5 of the 3 literals hold under every
  assignment; the constraint of the cardinality path holds under none.
\<close>

theorem unit_le_paths_differ:
  "has_unit_coefficients le_unit_term
   \<and> internalize_pb si_atom le_unit_term False True (solver0 0) =
       convert_at_most_k si_atom le_unit_term 5 True False (solver0 0)
   \<and> convert_at_most_k si_atom le_unit_term 5 True False (solver0 0) =
       (Inr None,
        (solver0 0)\<lparr>external := {3, 2, 1},
          constraints := [Card None [Literal 1 True, Literal 2 True, Literal 3 True] 4294967294]\<rparr>)
   \<and> convert_pb_le si_atom le_unit_term True False (solver0 0) =
       (Inl CoefficientOutOfRange, (solver0 0)\<lparr>external := {3, 2, 1}\<rparr>)
   \<and> (\<forall>a. length (filter (lit_holds a) [Literal 1 False, Literal 2 False, Literal 3 False]) \<le> 5)
   \<and> (\<forall>a. \<not> card_holds a [Literal 1 True, Literal 2 True, Literal 3 True] 4294967294)"
  by (simp add: le_unit_term_def convert_defs eval_defs card_holds_def)

subsection \<open>The cache\<close>

text \<open>
  C9. The claim: every reifying weighted conversion stores the term and its literal in
  the cache that the cardinality conversions use. \<^verbatim>\<open>convert_pb_ge\<close> and
  \<^verbatim>\<open>convert_pb_le\<close> do not call \<^verbatim>\<open>si.cache\<close>: after scenario 2's term is internalized
  away from the root, the cache is as empty as before. \<^verbatim>\<open>convert_at_least_k\<close> and
  \<^verbatim>\<open>convert_pb_eq\<close>, in the same solver, store their entry.
\<close>

theorem pb_ge_le_do_not_cache:
  "cache (solver0 0) = []
   \<and> fst (internalize si_atom scenario2 False False False (solver0 0))
       = Inr (Some (Literal 4 False))
   \<and> cache (snd (internalize si_atom scenario2 False False False (solver0 0))) = []
   \<and> fst (convert_pb_le si_atom scenario2 False False (solver0 0))
       = Inr (Some (Literal 4 False))
   \<and> cache (snd (convert_pb_le si_atom scenario2 False False (solver0 0))) = []
   \<and> cache (snd (convert_at_least_k si_atom scenario2 4 False False (solver0 0)))
       = [(scenario2, Literal 4 False)]
   \<and> cache (snd (convert_pb_eq si_atom eq_weighted_ok False False (solver0 0)))
       = [(eq_weighted_ok, Literal 6 False)]"
  by (simp add: scenario2_def eq_weighted_ok_def convert_defs eval_defs Let_def)

subsection \<open>The sign in a reifying conversion\<close>

text \<open>
  C10. When a conversion of an inequality reifies, that is, unless the call is at a root
  with no user scope once the arguments are internalized, \<open>sign = true\<close> and
  \<open>sign = false\<close> leave the same solver, the store with its constraint (tag, literals,
  threshold) included, and the same error if the call fails; the literals returned are
  complements of each other.
\<close>

theorem sign_affects_returned_literal_only:
  assumes "\<not> (isRoot \<and> user_scopes (snd (convert_pb_args si (args t) [] st)) = 0)"
  shows "convert_pb_le si t isRoot True st = flip_returned (convert_pb_le si t isRoot False st)
       \<and> convert_pb_ge si t isRoot True st = flip_returned (convert_pb_ge si t isRoot False st)
       \<and> convert_at_least_k si t k isRoot True st
           = flip_returned (convert_at_least_k si t k isRoot False st)
       \<and> convert_at_most_k si t k isRoot True st
           = flip_returned (convert_at_most_k si t k isRoot False st)"
proof -
  obtain lits st1 where a: "convert_pb_args si (args t) [] st = (lits, st1)"
    by (cases "convert_pb_args si (args t) [] st")
  have r: "\<not> (isRoot \<and> user_scopes st1 = 0)"
    using assms a by simp
  have le: "convert_pb_le si t isRoot True st = flip_returned (convert_pb_le si t isRoot False st)"
    using r a
    by (cases "convert_to_wlits (pb_coeffs t) lits []")
       (auto simp: convert_pb_le_def convert_pb_wargs_def flip_returned_def add_var_def
          split: prod.splits option.splits)
  have ge: "convert_pb_ge si t isRoot True st = flip_returned (convert_pb_ge si t isRoot False st)"
    using r a
    by (cases "convert_to_wlits (pb_coeffs t) lits []")
       (auto simp: convert_pb_ge_def convert_pb_wargs_def flip_returned_def add_var_def
          split: prod.splits option.splits)
  have al: "convert_at_least_k si t k isRoot True st
           = flip_returned (convert_at_least_k si t k isRoot False st)"
    using r a
    by (auto simp: convert_at_least_k_def flip_returned_def add_var_def Let_def)
  have am: "convert_at_most_k si t k isRoot True st
           = flip_returned (convert_at_most_k si t k isRoot False st)"
    using r a
    by (auto simp: convert_at_most_k_def flip_returned_def add_var_def Let_def)
  show ?thesis
    using le ge al am by blast
qed

theorem sign_affects_returned_literal_only_witness:
  "\<not> (False \<and> user_scopes (snd (convert_pb_args si_atom (args scenario2) [] (solver0 0))) = 0)
   \<and> convert_pb_ge si_atom scenario2 False False (solver0 0) =
       (Inr (Some (Literal 4 False)),
        (solver0 0)\<lparr>vars := [False, False, False, False, True], external := {3, 2, 1},
          constraints := [Pb (Some 4) [(2, Literal 1 False), (3, Literal 2 False), (1, Literal 3 False)] 4]\<rparr>)
   \<and> convert_pb_ge si_atom scenario2 False True (solver0 0) =
       (Inr (Some (Literal 4 True)),
        (solver0 0)\<lparr>vars := [False, False, False, False, True], external := {3, 2, 1},
          constraints := [Pb (Some 4) [(2, Literal 1 False), (3, Literal 2 False), (1, Literal 3 False)] 4]\<rparr>)
   \<and> convert_pb_le si_atom scenario2 False True (solver0 0) =
       flip_returned (convert_pb_le si_atom scenario2 False False (solver0 0))
   \<and> convert_at_least_k si_atom scenario2 2 False True (solver0 0) =
       flip_returned (convert_at_least_k si_atom scenario2 2 False False (solver0 0))
   \<and> convert_at_most_k si_atom scenario2 2 False True (solver0 0) =
       flip_returned (convert_at_most_k si_atom scenario2 2 False False (solver0 0))"
proof -
  have h: "\<not> (False \<and> user_scopes (snd (convert_pb_args si_atom (args scenario2) [] (solver0 0))) = 0)"
    by simp
  have ge: "convert_pb_ge si_atom scenario2 False False (solver0 0) =
       (Inr (Some (Literal 4 False)),
        (solver0 0)\<lparr>vars := [False, False, False, False, True], external := {3, 2, 1},
          constraints := [Pb (Some 4) [(2, Literal 1 False), (3, Literal 2 False), (1, Literal 3 False)] 4]\<rparr>)"
    by (simp add: scenario2_def convert_defs eval_defs)
  show ?thesis
    using sign_affects_returned_literal_only [OF h, of 2] ge
    by (simp add: flip_returned_def)
qed

end
